theory Spec2Isabelle
  imports Main "HOL-Library.Char_ord" "HOL-Library.List_Lexorder" "HOL-Library.AList"
begin

section \<open>Text primitives of the Python sources\<close>

text \<open>
  Strings are lists of 8-bit characters: the log text as bytes. The character classes of
  Python (\<^verbatim>\<open>\d\<close>, \<^verbatim>\<open>\w\<close>, \<^verbatim>\<open>str.isdigit\<close>, \<^verbatim>\<open>str.isspace\<close>,
  \<^verbatim>\<open>str.upper\<close>) are modelled on their ASCII range; a byte above 127 is neither a digit,
  a word character, white space nor a letter with an upper case.
\<close>

abbreviation sq :: char where
  "sq \<equiv> CHR 0x27"

abbreviation nl :: char where
  "nl \<equiv> CHR 0x0A"

definition is_digit :: "char \<Rightarrow> bool" where
  "is_digit c = (c \<in> set ''0123456789'')"

definition is_lower :: "char \<Rightarrow> bool" where
  "is_lower c = (c \<in> set ''abcdefghijklmnopqrstuvwxyz'')"

definition is_upper :: "char \<Rightarrow> bool" where
  "is_upper c = (c \<in> set ''ABCDEFGHIJKLMNOPQRSTUVWXYZ'')"

definition is_word :: "char \<Rightarrow> bool" where
  "is_word c = (is_digit c \<or> is_lower c \<or> is_upper c \<or> c = CHR ''_'')"

definition is_space :: "char \<Rightarrow> bool" where
  "is_space c = (c \<in> set [CHR 0x20, CHR 0x09, CHR 0x0A, CHR 0x0B, CHR 0x0C, CHR 0x0D,
                            CHR 0x1C, CHR 0x1D, CHR 0x1E, CHR 0x1F])"

fun upper_char :: "char \<Rightarrow> char" where
  "upper_char c =
     (case map_of (zip ''abcdefghijklmnopqrstuvwxyz'' ''ABCDEFGHIJKLMNOPQRSTUVWXYZ'') c of
        Some u \<Rightarrow> u
      | None \<Rightarrow> c)"

definition upper :: "string \<Rightarrow> string" where
  "upper s = map upper_char s"

text \<open>\<^verbatim>\<open>s.strip()\<close>, \<^verbatim>\<open>s.rstrip(';')\<close>, \<^verbatim>\<open>s.split()\<close> and \<^verbatim>\<open>sep.join(xs)\<close>.\<close>

definition rstrip_by :: "(char \<Rightarrow> bool) \<Rightarrow> string \<Rightarrow> string" where
  "rstrip_by p s = rev (dropWhile p (rev s))"

definition strip :: "string \<Rightarrow> string" where
  "strip s = rstrip_by is_space (dropWhile is_space s)"

definition rstrip_semi :: "string \<Rightarrow> string" where
  "rstrip_semi s = rstrip_by (\<lambda>c. c = CHR '';'') s"

fun split_acc :: "string \<Rightarrow> string \<Rightarrow> string list" where
  "split_acc cur [] = (if cur = [] then [] else [cur])"
| "split_acc cur (c # cs) =
     (if is_space c then (if cur = [] then split_acc [] cs else cur # split_acc [] cs)
      else split_acc (cur @ [c]) cs)"

definition split_ws :: "string \<Rightarrow> string list" where
  "split_ws s = split_acc [] s"

fun join :: "string \<Rightarrow> string list \<Rightarrow> string" where
  "join sep [] = []"
| "join sep [x] = x"
| "join sep (x # y # ys) = x @ sep @ join sep (y # ys)"

section \<open>Regular-expression substitution\<close>

text \<open>
  \<^verbatim>\<open>pattern.sub(repl, s)\<close> scans \<^verbatim>\<open>s\<close> from the left; where the pattern matches, the
  match is replaced and the scan goes on behind it, elsewhere the character is copied.
  A matcher gets the character before the position (for \<^verbatim>\<open>\b\<close>) and the text from the
  position on, and returns the length of the match there. All patterns of the sources
  match at least one character. The counter \<open>k\<close> is the number of characters of the
  current match that are still to be skipped.
\<close>

type_synonym matcher = "char option \<Rightarrow> string \<Rightarrow> nat option"

fun re_sub :: "matcher \<Rightarrow> string \<Rightarrow> nat \<Rightarrow> char option \<Rightarrow> string \<Rightarrow> string" where
  "re_sub m repl k prev [] = []"
| "re_sub m repl k prev (c # cs) =
     (if 0 < k then re_sub m repl (k - 1) (Some c) cs
      else (case m prev (c # cs) of
              Some n \<Rightarrow> repl @ re_sub m repl (n - 1) (Some c) cs
            | None \<Rightarrow> c # re_sub m repl 0 (Some c) cs))"

definition sub :: "matcher \<Rightarrow> string \<Rightarrow> string \<Rightarrow> string" where
  "sub m repl s = re_sub m repl 0 None s"

text \<open>
  \<^verbatim>\<open>string_pattern = '(?:''|[^'])*'\<close>. \<open>str_tail\<close> is the part behind the opening quote:
  the greedy loop with its two alternatives in order, and the closing quote tried where
  the loop gives up. It returns the number of characters up to and including the closing
  quote.
\<close>

fun str_tail :: "string \<Rightarrow> nat option" where
  "str_tail [] = None"
| "str_tail [c] = (if c = sq then Some 1 else None)"
| "str_tail (c # d # ds) =
     (if c = sq then
        (if d = sq then (case str_tail ds of Some n \<Rightarrow> Some (n + 2) | None \<Rightarrow> Some 1)
         else Some 1)
      else map_option Suc (str_tail (d # ds)))"

definition string_pattern :: matcher where
  "string_pattern prev s =
     (case s of [] \<Rightarrow> None
      | c # cs \<Rightarrow> if c = sq then map_option Suc (str_tail cs) else None)"

text \<open>
  \<^verbatim>\<open>\b\<close> before a digit holds when there is no word character before it; behind a digit
  it holds when no word character follows.
\<close>

definition boundary_before :: "char option \<Rightarrow> bool" where
  "boundary_before prev = (case prev of None \<Rightarrow> True | Some p \<Rightarrow> \<not> is_word p)"

definition boundary_after :: "string \<Rightarrow> bool" where
  "boundary_after s = (case s of [] \<Rightarrow> True | c # cs \<Rightarrow> \<not> is_word c)"

text \<open>\<^verbatim>\<open>number_pattern = \b\d+\b\<close>: the whole run of digits, or nothing.\<close>

definition number_pattern :: matcher where
  "number_pattern prev s =
     (let n = length (takeWhile is_digit s) in
      if boundary_before prev \<and> 0 < n \<and> boundary_after (drop n s) then Some n else None)"

text \<open>\<^verbatim>\<open>float_pattern = \b\d+\.\d+\b\<close>: both runs of digits are taken whole.\<close>

definition float_pattern :: matcher where
  "float_pattern prev s =
     (let n1 = length (takeWhile is_digit s); r1 = drop n1 s in
      if boundary_before prev \<and> 0 < n1 \<and> r1 \<noteq> [] \<and> hd r1 = CHR ''.'' then
        (let n2 = length (takeWhile is_digit (tl r1)) in
         if 0 < n2 \<and> boundary_after (drop n2 (tl r1)) then Some (n1 + 1 + n2) else None)
      else None)"

section \<open>The normalizer of the day and minute parsers\<close>

text \<open>
  The body of \<^verbatim>\<open>normalize_sql\<close> behind the cache lookup: strings, then decimal numbers,
  then integers, then \<^verbatim>\<open>' '.join(normalized.split())\<close>.
\<close>

definition normalize_pure :: "string \<Rightarrow> string" where
  "normalize_pure sql =
     (let normalized = sub string_pattern ''$str'' sql;
          normalized = sub float_pattern ''$num'' normalized;
          normalized = sub number_pattern ''$num'' normalized
      in join '' '' (split_ws normalized))"


section \<open>The normalizer of the chunked parser\<close>

text \<open>
  \<^verbatim>\<open>normalize_query\<close> of parser.py: \<^verbatim>\<open>--.*\<close> is deleted, then \<^verbatim>\<open>'.*?'\<close> and
  \<^verbatim>\<open>\b\d+\b\<close> are replaced by a question mark, then the text is stripped. The dot does
  not match a newline; the lazy \<^verbatim>\<open>.*?\<close> stops at the first closing quote.
\<close>

definition comment_pattern :: matcher where
  "comment_pattern prev s =
     (case s of
        a # b # cs \<Rightarrow>
          if a = CHR ''-'' \<and> b = CHR ''-'' then Some (2 + length (takeWhile (\<lambda>c. c \<noteq> nl) cs))
          else None
      | _ \<Rightarrow> None)"

definition quoted_pattern :: matcher where
  "quoted_pattern prev s =
     (case s of
        [] \<Rightarrow> None
      | c # cs \<Rightarrow>
          if c = sq then
            (let n = length (takeWhile (\<lambda>d. d \<noteq> sq \<and> d \<noteq> nl) cs); r = drop n cs in
             if r \<noteq> [] \<and> hd r = sq then Some (n + 2) else None)
          else None)"

definition normalize_query :: "string \<Rightarrow> string" where
  "normalize_query query =
     (let query = sub comment_pattern [] query;
          query = sub quoted_pattern ''?'' query;
          query = sub number_pattern ''?'' query
      in strip query)"


section \<open>Substitution lemmas\<close>



lemma string_pattern_Nil: "string_pattern p [] = None"
  by (simp add: string_pattern_def)





















section \<open>Claims about normalization\<close>





section \<open>The normalization cache\<close>

text \<open>
  \<^verbatim>\<open>normalize_sql\<close> with its cache \<^verbatim>\<open>self.sql_cache\<close>, a dictionary from bodies to
  normalized bodies. The call returns the value and the cache after it; the flag says
  which branch answered: \<open>True\<close> for the early return from the cache, \<open>False\<close> when the
  substitutions were run. \<open>normalize_calls\<close> is a sequence of calls on one parser object,
  with the trace of their bodies, values and flags.
\<close>

type_synonym sql_cache = "string \<rightharpoonup> string"

definition normalize_sql :: "sql_cache \<Rightarrow> string \<Rightarrow> string \<times> bool \<times> sql_cache" where
  "normalize_sql cache sql =
     (case cache sql of
        Some v \<Rightarrow> (v, True, cache)
      | None \<Rightarrow> (let normalized = normalize_pure sql in (normalized, False, cache(sql \<mapsto> normalized))))"







section \<open>Log lines of the day and minute parsers\<close>

text \<open>
  A statement record is the dictionary \<^verbatim>\<open>{'timestamp': ..., 'sql': ...}\<close>;
  \<^verbatim>\<open>current_query\<close> is such a dictionary or \<^verbatim>\<open>None\<close>, and a dictionary with these two
  keys is always true in a condition.
\<close>

record query =
  timestamp :: string
  sql :: string

text \<open>
  A fixed shape: \<open>d\<close> in the template stands for \<^verbatim>\<open>\d\<close>, any other character for itself.
\<close>

fun shape_prefix :: "string \<Rightarrow> string \<Rightarrow> bool" where
  "shape_prefix [] s = True"
| "shape_prefix (p # ps) [] = False"
| "shape_prefix (p # ps) (c # cs) =
     ((if p = CHR ''d'' then is_digit c else c = p) \<and> shape_prefix ps cs)"

text \<open>
  The first group of \<^verbatim>\<open>log_pattern\<close>,
  \<^verbatim>\<open>^(\d{4}-\d{2}-\d{2} \d{2}:\d{2}:\d{2}(?:\.\d+)?(?: UTC)?)\<close>, under \<^verbatim>\<open>re.IGNORECASE\<close>:
  its length when the line starts with it. Both optional parts are greedy; what follows
  the group in either pattern cannot begin inside them, so giving one up never turns a
  failed match into a match.
\<close>

definition ts_len :: "string \<Rightarrow> nat option" where
  "ts_len line =
     (if shape_prefix ''dddd-dd-dd dd:dd:dd'' line then
        (let r = drop 19 line;
             n1 = (case r of
                     [] \<Rightarrow> 0
                   | c # cs \<Rightarrow>
                       if c = CHR ''.'' \<and> takeWhile is_digit cs \<noteq> []
                       then 1 + length (takeWhile is_digit cs) else 0);
             n2 = (if upper (take 4 (drop n1 r)) = '' UTC'' then 4 else 0)
         in Some (19 + n1 + n2))
      else None)"

text \<open>
  The lazy last group with its end, \<^verbatim>\<open>(.*?)(?:;|$)\<close>: the text up to the first semicolon
  or the end of the line (\<^verbatim>\<open>$\<close> also matches before a final newline). It fails when a
  newline that is not the last character comes first.
\<close>

fun tail_group :: "string \<Rightarrow> string option" where
  "tail_group [] = Some []"
| "tail_group (c # cs) =
     (if c = CHR '';'' then Some []
      else if c = nl then (if cs = [] then Some [] else None)
      else map_option ((#) c) (tail_group cs))"

text \<open>
  dayparserz: \<^verbatim>\<open>.*?statement: (.*?)(?:;|$)\<close> behind the first group. The lazy \<^verbatim>\<open>.*?\<close>
  moves on one character at a time, never over a newline.
\<close>

fun find_statement :: "string \<Rightarrow> string option" where
  "find_statement [] = None"
| "find_statement (c # cs) =
     (case (if upper (take 11 (c # cs)) = ''STATEMENT: '' then tail_group (drop 11 (c # cs))
            else None) of
        Some g \<Rightarrow> Some g
      | None \<Rightarrow> if c = nl then None else find_statement cs)"

definition extract_query :: "string \<Rightarrow> query option" where
  "extract_query line =
     (case ts_len line of
        None \<Rightarrow> None
      | Some n \<Rightarrow>
          (case find_statement (drop n line) of
             None \<Rightarrow> None
           | Some g \<Rightarrow> Some \<lparr>timestamp = strip (take n line), sql = strip g\<rparr>))"

text \<open>
  minparserz: \<^verbatim>\<open>.*?:\s+(.*?)(?:;|$)\<close> behind the first group. \<^verbatim>\<open>\s+\<close> is greedy and
  gives back one character at a time.
\<close>

fun try_spaces :: "nat \<Rightarrow> string \<Rightarrow> string option" where
  "try_spaces 0 s = None"
| "try_spaces (Suc k) s =
     (case tail_group (drop (Suc k) s) of Some g \<Rightarrow> Some g | None \<Rightarrow> try_spaces k s)"

fun find_colon :: "string \<Rightarrow> string option" where
  "find_colon [] = None"
| "find_colon (c # cs) =
     (case (if c = CHR '':'' then try_spaces (length (takeWhile is_space cs)) cs else None) of
        Some g \<Rightarrow> Some g
      | None \<Rightarrow> if c = nl then None else find_colon cs)"

definition extract_query_min :: "string \<Rightarrow> query option" where
  "extract_query_min line =
     (case ts_len line of
        None \<Rightarrow> None
      | Some n \<Rightarrow>
          (case find_colon (drop n line) of
             None \<Rightarrow> None
           | Some g \<Rightarrow> Some \<lparr>timestamp = strip (take n line), sql = strip g\<rparr>))"

section \<open>Routing records to bucket files\<close>

datatype error = IndexError | IOError

text \<open>
  The operator of \<^verbatim>\<open>buffer_query\<close>, from the body without its trailing semicolons.
  \<^verbatim>\<open>sql.split()[0]\<close> is evaluated whenever \<^verbatim>\<open>sql\<close> is not the empty string, and raises
  \<^verbatim>\<open>IndexError\<close> when the split has no element.
\<close>

definition operator_of :: "string \<Rightarrow> string" where
  "operator_of first_word =
     (if first_word = ''WITH'' then ''SELECT''
      else if first_word \<in> set [''SELECT'', ''INSERT'', ''UPDATE'', ''DELETE''] then first_word
      else ''OTHER'')"

definition first_word_of :: "string \<Rightarrow> error + string" where
  "first_word_of body =
     (if body \<noteq> [] then
        (case split_ws body of [] \<Rightarrow> Inl IndexError | w # ws \<Rightarrow> Inr (upper w))
      else Inr [])"

definition classify :: "string \<Rightarrow> error + string" where
  "classify body =
     (case first_word_of (rstrip_semi body) of
        Inl e \<Rightarrow> Inl e
      | Inr first_word \<Rightarrow> Inr (operator_of first_word))"

text \<open>
  The state of a run: the fields of the parser object that the run changes, the two
  local variables \<^verbatim>\<open>output_files\<close> (the names of the opened handles, in the order of
  opening) and \<^verbatim>\<open>current_query\<close> of \<^verbatim>\<open>parse\<close>, the files of the working directory
  with their lines, and the names whose handle has been closed, one entry for each call
  of \<^verbatim>\<open>close\<close>. Dictionaries that are iterated are association lists in insertion
  order. Opening a file for appending and writing to it are taken to succeed.
\<close>

record pstate =
  dates_seen :: "string list"
  sql_cache :: sql_cache
  file_buffers :: "(string \<times> string list) list"
  output_files :: "string list"
  current_query :: "query option"
  disk :: "(string \<times> string list) list"
  closed :: "string list"

definition init_state :: "(string \<times> string list) list \<Rightarrow> pstate" where
  "init_state files =
     \<lparr>dates_seen = [], sql_cache = Map.empty, file_buffers = [], output_files = [],
      current_query = None, disk = files, closed = []\<rparr>"

definition lookup_list :: "(string \<times> 'a list) list \<Rightarrow> string \<Rightarrow> 'a list" where
  "lookup_list d k = (case map_of d k of None \<Rightarrow> [] | Some v \<Rightarrow> v)"

definition open_append :: "string \<Rightarrow> (string \<times> string list) list \<Rightarrow> (string \<times> string list) list" where
  "open_append name d = AList.update name (lookup_list d name) d"

definition writelines :: "string \<Rightarrow> string list \<Rightarrow> (string \<times> string list) list \<Rightarrow> (string \<times> string list) list" where
  "writelines name ls d = AList.update name (lookup_list d name @ ls) d"

definition buffer_size :: nat where
  "buffer_size = 1000"

definition buffer_query :: "pstate \<Rightarrow> query \<Rightarrow> error + pstate" where
  "buffer_query st q =
     (let body = rstrip_semi (sql q) in
      case first_word_of body of
        Inl e \<Rightarrow> Inl e
      | Inr first_word \<Rightarrow>
          (case split_ws (timestamp q) of
             [] \<Rightarrow> Inl IndexError
           | date_part # ws \<Rightarrow>
               (let operator = operator_of first_word;
                    st = st\<lparr>dates_seen := List.insert date_part (dates_seen st)\<rparr>;
                    filename = operator @ ''_'' @ date_part @ ''.log'';
                    st = (if filename \<notin> set (output_files st)
                          then st\<lparr>output_files := output_files st @ [filename],
                                  disk := open_append filename (disk st)\<rparr>
                          else st);
                    buf = lookup_list (file_buffers st) filename
                            @ [timestamp q @ '' | '' @ body @ [nl]]
                in if buffer_size \<le> length buf
                   then Inr (st\<lparr>disk := writelines filename buf (disk st),
                                file_buffers := AList.update filename [] (file_buffers st)\<rparr>)
                   else Inr (st\<lparr>file_buffers := AList.update filename buf (file_buffers st)\<rparr>))))"

definition flush_buffers :: "pstate \<Rightarrow> pstate" where
  "flush_buffers st =
     st\<lparr>disk := fold (\<lambda>(filename, buffer) d.
                      if buffer \<noteq> [] \<and> filename \<in> set (output_files st)
                      then writelines filename buffer d else d)
                   (file_buffers st) (disk st),
        file_buffers := []\<rparr>"

definition close_all :: "pstate \<Rightarrow> pstate" where
  "close_all st = st\<lparr>closed := closed st @ output_files st\<rparr>"

text \<open>
  One turn of the loop of \<^verbatim>\<open>parse\<close>, for either parser: \<open>extract\<close> is the match of the
  log pattern. \<open>Inl\<close> is an exception of \<^verbatim>\<open>buffer_query\<close>; it is raised before anything
  is changed, so the state at the exception is the state before the turn.
\<close>

definition emit_current :: "pstate \<Rightarrow> error + pstate" where
  "emit_current st = (case current_query st of None \<Rightarrow> Inr st | Some q \<Rightarrow> buffer_query st q)"

definition parse_line :: "(string \<Rightarrow> query option) \<Rightarrow> pstate \<Rightarrow> string \<Rightarrow> error + pstate" where
  "parse_line extract st raw =
     (let line = strip raw in
      if line = [] then Inr st
      else if is_digit (hd line) then
        (case emit_current st of
           Inl e \<Rightarrow> Inl e
         | Inr st' \<Rightarrow> Inr (st'\<lparr>current_query := extract line\<rparr>))
      else
        (case current_query st of
           None \<Rightarrow> Inr st
         | Some q \<Rightarrow> Inr (st\<lparr>current_query := Some (q\<lparr>sql := sql q @ '' '' @ line\<rparr>)\<rparr>)))"

fun parse_lines :: "(string \<Rightarrow> query option) \<Rightarrow> pstate \<Rightarrow> string list \<Rightarrow> error option \<times> pstate" where
  "parse_lines extract st [] = (None, st)"
| "parse_lines extract st (l # ls) =
     (case parse_line extract st l of
        Inl e \<Rightarrow> (Some e, st)
      | Inr st' \<Rightarrow> parse_lines extract st' ls)"


section \<open>The daily summary\<close>

text \<open>\<^verbatim>\<open>line.split(' | ', 1)\<close>: the text before and behind the first separator.\<close>

fun split_bar :: "string \<Rightarrow> (string \<times> string) option" where
  "split_bar [] = None"
| "split_bar (c # cs) =
     (if take 3 (c # cs) = '' | '' then Some ([], drop 3 (c # cs))
      else map_option (\<lambda>(a, b). (c # a, b)) (split_bar cs))"

text \<open>\<^verbatim>\<open>str(count)\<close> for a count.\<close>

fun show_nat :: "nat \<Rightarrow> string" where
  "show_nat n =
     (if n < 10 then [''0123456789'' ! n]
      else show_nat (n div 10) @ [''0123456789'' ! (n mod 10)])"

declare show_nat.simps [simp del]

text \<open>
  \<^verbatim>\<open>glob.glob(f'*_{date}.log')\<close> in the working directory: the names that end with the
  text behind the star and do not start with a dot. A date of this program is the first
  word of a matched time stamp and holds no character that is special in a glob pattern.
\<close>

definition ends_with :: "string \<Rightarrow> string \<Rightarrow> bool" where
  "ends_with suf s = (length suf \<le> length s \<and> drop (length s - length suf) s = suf)"

definition glob_date :: "string \<Rightarrow> (string \<times> string list) list \<Rightarrow> string list" where
  "glob_date date d =
     filter (\<lambda>name. ends_with (''_'' @ date @ ''.log'') name \<and> take 1 name \<noteq> ''.'') (map fst d)"

text \<open>
  \<^verbatim>\<open>stats\<close> is a dictionary of dictionaries of counts, both created on first access.
\<close>

type_synonym stats = "(string \<times> (string \<times> nat) list) list"

definition count_of :: "(string \<times> nat) list \<Rightarrow> string \<Rightarrow> nat" where
  "count_of inner k = (case map_of inner k of None \<Rightarrow> 0 | Some n \<Rightarrow> n)"

definition bump :: "string \<Rightarrow> string \<Rightarrow> stats \<Rightarrow> stats" where
  "bump key normalized stats =
     (let inner = lookup_list stats key
      in AList.update key (AList.update normalized (count_of inner normalized + 1) inner) stats)"

text \<open>
  The body of the loop over the lines of a bucket file. The bucket key is the first word
  of the time stamp; a time stamp without a word raises \<^verbatim>\<open>IndexError\<close>, which skips the
  line after its body has been normalized.
\<close>

definition count_line :: "string \<Rightarrow> stats \<times> sql_cache \<Rightarrow> stats \<times> sql_cache" where
  "count_line line sc =
     (case split_bar line of
        None \<Rightarrow> sc
      | Some (ts, body) \<Rightarrow>
          (case normalize_sql (snd sc) (strip body) of
             (normalized_sql, hit, cache) \<Rightarrow>
               (case split_ws ts of
                  [] \<Rightarrow> (fst sc, cache)
                | date_key # ws \<Rightarrow> (bump date_key normalized_sql (fst sc), cache))))"

text \<open>The words that the summary writes around the count, as UTF-8 bytes.\<close>

definition word_executed :: string where
  "word_executed = [CHR 0xD0, CHR 0xB2, CHR 0xD1, CHR 0x8B, CHR 0xD0, CHR 0xBF, CHR 0xD0, CHR 0xBE,
                    CHR 0xD0, CHR 0xBB, CHR 0xD0, CHR 0xBD, CHR 0xD0, CHR 0xB8, CHR 0xD0, CHR 0xBB,
                    CHR 0xD1, CHR 0x81, CHR 0xD1, CHR 0x8F]"

definition word_times :: string where
  "word_times = [CHR 0xD1, CHR 0x80, CHR 0xD0, CHR 0xB0, CHR 0xD0, CHR 0xB7]"

definition summary_line :: "string \<Rightarrow> string \<Rightarrow> nat \<Rightarrow> string" where
  "summary_line key normalized count =
     key @ '' | '' @ normalized @ '' | '' @ word_executed @ '' '' @ show_nat count @ '' ''
       @ word_times @ [nl]"

text \<open>
  The writing loop: the keys in sorted order, and under each key the pairs of the inner
  dictionary in sorted order; its keys are distinct, so the pairs are ordered by them.
\<close>

definition summary_lines :: "stats \<Rightarrow> string list" where
  "summary_lines stats =
     concat (map (\<lambda>key. map (\<lambda>(normalized, count). summary_line key normalized count)
                          (sort_key fst (lookup_list stats key)))
                 (sort (map fst stats)))"

definition lines_read :: "pstate \<Rightarrow> string list" where
  "lines_read st =
     concat (map (\<lambda>date. concat (map (lookup_list (disk st)) (glob_date date (disk st))))
                 (dates_seen st))"

definition collect_stats :: "pstate \<Rightarrow> stats \<times> sql_cache" where
  "collect_stats st = fold count_line (lines_read st) ([], sql_cache st)"

definition generate_daily_summary :: "pstate \<Rightarrow> pstate" where
  "generate_daily_summary st =
     (case collect_stats st of
        (stats, cache) \<Rightarrow>
          st\<lparr>sql_cache := cache,
             disk := AList.update ''daily_summary.log'' (summary_lines stats) (disk st)\<rparr>)"

section \<open>The run of the day parser\<close>

text \<open>
  The input stream is the list of the lines it yields and the way it ends. The
  \<^verbatim>\<open>finally\<close> block runs after the loop, however it ended: it routes the record in
  progress, flushes, closes and writes the summary; an exception of \<^verbatim>\<open>buffer_query\<close>
  in it leaves the block at once. The archive and the removal of the working files behind
  the summary are not modelled.
\<close>

datatype stream_end = EndOfFile | ReadFailure

definition parse_try :: "(string \<Rightarrow> query option) \<Rightarrow> pstate \<Rightarrow> string list \<Rightarrow> stream_end \<Rightarrow> error option \<times> pstate" where
  "parse_try extract st lines ending =
     (case parse_lines extract st lines of
        (Some e, st') \<Rightarrow> (Some e, st')
      | (None, st') \<Rightarrow> (case ending of EndOfFile \<Rightarrow> (None, st') | ReadFailure \<Rightarrow> (Some IOError, st')))"

definition parse_finally :: "error option \<times> pstate \<Rightarrow> error option \<times> pstate" where
  "parse_finally r =
     (case emit_current (snd r) of
        Inl e \<Rightarrow> (Some e, snd r)
      | Inr st \<Rightarrow> (fst r, generate_daily_summary (close_all (flush_buffers st))))"

definition parse :: "(string \<times> string list) list \<Rightarrow> string list \<Rightarrow> stream_end \<Rightarrow> error option \<times> pstate" where
  "parse files lines ending = parse_finally (parse_try extract_query (init_state files) lines ending)"

definition scenario :: "string list" where
  "scenario =
     [''2024-01-01 10:00:01 LOG:  statement: SELECT * FROM users WHERE id = 5;'' @ [nl],
      ''2024-01-01 10:00:02 LOG:  statement: SELECT * FROM users WHERE id = 9;'' @ [nl]]"

section \<open>Claims about classification and cleanup\<close>

lemma classify_first_token:
  "split_ws (rstrip_semi body) = w # ws \<Longrightarrow> classify body = Inr (operator_of (upper w))"
  by (cases "rstrip_semi body") (auto simp: classify_def first_word_of_def split_ws_def)

lemma classify_empty:
  "rstrip_semi body = [] \<Longrightarrow> classify body = Inr ''OTHER''"
  by (simp add: classify_def first_word_of_def operator_of_def)

lemma operator_of_with: "operator_of ''WITH'' = operator_of ''SELECT''"
  by (simp add: operator_of_def)

lemma operator_of_cases:
  "operator_of w = (if w = ''WITH'' \<or> w = ''SELECT'' then ''SELECT''
                    else if w = ''INSERT'' then ''INSERT''
                    else if w = ''UPDATE'' then ''UPDATE''
                    else if w = ''DELETE'' then ''DELETE'' else ''OTHER'')"
  by (simp add: operator_of_def)

text \<open>
  An input whose last record has a body of white space and semicolons only: the second
  line starts a record with an empty body, the third line is appended to it.
\<close>

definition blank_body_input :: "string list" where
  "blank_body_input =
     [''2024-01-01 10:00:01 LOG:  statement: SELECT 1;'' @ [nl],
      ''2024-01-01 10:00:02 LOG:  statement: ;'' @ [nl],
      '';'' @ [nl]]"

text \<open>
  C5 at the failing input. The loop builds the record with the body \<open>'' ;''\<close>. Without
  its semicolon the body is one space: it is not empty, so \<^verbatim>\<open>sql.split()[0]\<close> is
  evaluated, and the split has no word. The classification raises \<^verbatim>\<open>IndexError\<close> where
  the claim has \<^verbatim>\<open>OTHER\<close>, the result of the guarded empty body.
\<close>

theorem classify_blank_body_raises:
  "(case parse_lines extract_query (init_state []) blank_body_input of
      (e, st) \<Rightarrow> (e, current_query st))
     = (None, Some \<lparr>timestamp = ''2024-01-01 10:00:02'', sql = '' ;''\<rparr>)
   \<and> rstrip_semi '' ;'' = '' ''
   \<and> classify '' ;'' = Inl IndexError
   \<and> classify [] = Inr ''OTHER''"
  by code_simp

text \<open>
  C9 at the failing input, with the stream ending normally and with a read failure. The
  \<^verbatim>\<open>finally\<close> block calls \<^verbatim>\<open>buffer_query\<close> first; it raises, and the block is left
  before \<^verbatim>\<open>flush_buffers\<close> and the calls of \<^verbatim>\<open>close\<close>: the line of the first record is
  still in its buffer, its file is empty, and the handle has not been closed.
\<close>

theorem parse_blank_body_skips_cleanup:
  "(case parse [] blank_body_input EndOfFile of
      (e, st) \<Rightarrow> (e, file_buffers st, disk st, output_files st, closed st))
     = (Some IndexError,
        [(''SELECT_2024-01-01.log'', [''2024-01-01 10:00:01 | SELECT 1'' @ [nl]])],
        [(''SELECT_2024-01-01.log'', [])],
        [''SELECT_2024-01-01.log''],
        [])
   \<and> (case parse [] blank_body_input ReadFailure of
      (e, st) \<Rightarrow> (e, file_buffers st, disk st, output_files st, closed st))
     = (Some IndexError,
        [(''SELECT_2024-01-01.log'', [''2024-01-01 10:00:01 | SELECT 1'' @ [nl]])],
        [(''SELECT_2024-01-01.log'', [])],
        [''SELECT_2024-01-01.log''],
        [])"
  by code_simp

section \<open>Claims about the assembler\<close>

lemma join_space_snoc:
  "join '' '' ((a @ CHR '' '' # b) # rest) = a @ CHR '' '' # join '' '' (b # rest)"
  by (cases rest) simp_all

lemma parse_line_continuation:
  assumes "current_query st = Some q" "strip raw \<noteq> []" "\<not> is_digit (hd (strip raw))"
  shows "parse_line ext st raw
         = Inr (st\<lparr>current_query := Some (q\<lparr>sql := sql q @ '' '' @ strip raw\<rparr>)\<rparr>)"
  using assms by (simp add: parse_line_def Let_def)

lemma parse_lines_continuations:
  assumes "current_query st = Some q"
    and "\<forall>raw\<in>set cs. strip raw \<noteq> [] \<and> \<not> is_digit (hd (strip raw))"
  shows "parse_lines ext st cs
         = (None, st\<lparr>current_query := Some (q\<lparr>sql := join '' '' (sql q # map strip cs)\<rparr>)\<rparr>)"
  using assms
proof (induction cs arbitrary: st q)
  case Nil
  then show ?case by simp
next
  case (Cons c cs)
  let ?q = "q\<lparr>sql := sql q @ '' '' @ strip c\<rparr>"
  let ?st = "st\<lparr>current_query := Some ?q\<rparr>"
  have step: "parse_line ext st c = Inr ?st"
    using Cons.prems by (intro parse_line_continuation) auto
  have "parse_lines ext ?st cs
        = (None, ?st\<lparr>current_query := Some (?q\<lparr>sql := join '' '' (sql ?q # map strip cs)\<rparr>)\<rparr>)"
    using Cons.prems by (intro Cons.IH) auto
  then show ?case by (simp add: step join_space_snoc)
qed

text \<open>
  C2 (as amended), for the loop of either parser (\<open>ext\<close> is its match of the log
  pattern). With a record \<open>q\<close> in progress and a line that is not empty after stripping:
  a line with a leading digit routes \<open>q\<close> through \<^verbatim>\<open>buffer_query\<close> and makes the match of
  the line the record in progress (none when the pattern does not match); any line
  without a leading digit is appended to the body of \<open>q\<close> behind one space, and \<open>q\<close>
  stays in progress. Hence after any lines without a leading digit the body is the join,
  with single spaces, of the body so far and the stripped lines.
\<close>

theorem assembler_accumulating:
  assumes "current_query st = Some q" and "strip raw \<noteq> []"
    and "\<forall>c\<in>set cs. strip c \<noteq> [] \<and> \<not> is_digit (hd (strip c))"
  shows "(is_digit (hd (strip raw)) \<longrightarrow>
            parse_line ext st raw
              = (case buffer_query st q of
                   Inl e \<Rightarrow> Inl e
                 | Inr st' \<Rightarrow> Inr (st'\<lparr>current_query := ext (strip raw)\<rparr>)))
       \<and> (\<not> is_digit (hd (strip raw)) \<longrightarrow>
            parse_line ext st raw
              = Inr (st\<lparr>current_query := Some (q\<lparr>sql := sql q @ '' '' @ strip raw\<rparr>)\<rparr>))
       \<and> parse_lines ext st cs
            = (None, st\<lparr>current_query := Some (q\<lparr>sql := join '' '' (sql q # map strip cs)\<rparr>)\<rparr>)"
proof (intro conjI impI)
  assume "is_digit (hd (strip raw))"
  then show "parse_line ext st raw
              = (case buffer_query st q of
                   Inl e \<Rightarrow> Inl e
                 | Inr st' \<Rightarrow> Inr (st'\<lparr>current_query := ext (strip raw)\<rparr>))"
    using assms(1,2) by (simp add: parse_line_def emit_current_def Let_def)
next
  assume "\<not> is_digit (hd (strip raw))"
  with assms(1,2) show "parse_line ext st raw
              = Inr (st\<lparr>current_query := Some (q\<lparr>sql := sql q @ '' '' @ strip raw\<rparr>)\<rparr>)"
    by (rule parse_line_continuation)
next
  show "parse_lines ext st cs
            = (None, st\<lparr>current_query := Some (q\<lparr>sql := join '' '' (sql q # map strip cs)\<rparr>)\<rparr>)"
    using assms(1,3) by (rule parse_lines_continuations)
qed

text \<open>
  C2 as stated fails on a continuation line that starts with a digit. The second line
  does not match the time stamp pattern, so by the claim it is appended to the body; the
  loop instead routes the record with the body of the first line only and has no record
  in progress afterwards.
\<close>

definition digit_continuation_input :: "string list" where
  "digit_continuation_input =
     [''2024-01-01 10:00:01 LOG:  statement: SELECT a FROM t WHERE x IN ('' @ [nl],
      ''1, 2, 3)'' @ [nl]]"

theorem assembler_digit_line_counterexample:
  "(case parse_lines extract_query (init_state []) (take 1 digit_continuation_input) of
      (e, st) \<Rightarrow> (e, current_query st, file_buffers st))
     = (None, Some \<lparr>timestamp = ''2024-01-01 10:00:01'', sql = ''SELECT a FROM t WHERE x IN (''\<rparr>, [])
   \<and> ts_len (strip (digit_continuation_input ! 1)) = None
   \<and> (case parse_lines extract_query (init_state []) digit_continuation_input of
      (e, st) \<Rightarrow> (e, current_query st, file_buffers st))
     = (None, None,
        [(''SELECT_2024-01-01.log'', [''2024-01-01 10:00:01 | SELECT a FROM t WHERE x IN ('' @ [nl]])])"
  by code_simp

text \<open>A statement over three lines, then the line of the next statement.\<close>

definition three_line_input :: "string list" where
  "three_line_input =
     [''2024-01-01 10:00:01 LOG:  statement: SELECT a'' @ [nl],
      ''  FROM t'' @ [nl],
      ''  WHERE x = 1;'' @ [nl]]"

theorem assembler_accumulating_witness:
  "parse_line extract_query
     (snd (parse_lines extract_query (init_state []) three_line_input))
     ''2024-01-01 10:00:02 LOG:  statement: SELECT 2''
   = (case buffer_query (snd (parse_lines extract_query (init_state []) three_line_input))
             \<lparr>timestamp = ''2024-01-01 10:00:01'', sql = ''SELECT a FROM t WHERE x = 1;''\<rparr> of
        Inl e \<Rightarrow> Inl e
      | Inr st' \<Rightarrow> Inr (st'\<lparr>current_query :=
            extract_query (strip ''2024-01-01 10:00:02 LOG:  statement: SELECT 2'')\<rparr>))
   \<and> parse_lines extract_query
        (snd (parse_lines extract_query (init_state []) (take 1 three_line_input)))
        (drop 1 three_line_input)
     = (None, (snd (parse_lines extract_query (init_state []) (take 1 three_line_input)))
          \<lparr>current_query := Some \<lparr>timestamp = ''2024-01-01 10:00:01'',
                                   sql = ''SELECT a FROM t WHERE x = 1;''\<rparr>\<rparr>)"
proof -
  let ?st3 = "snd (parse_lines extract_query (init_state []) three_line_input)"
  let ?st1 = "snd (parse_lines extract_query (init_state []) (take 1 three_line_input))"
  let ?q3 = "\<lparr>timestamp = ''2024-01-01 10:00:01'', sql = ''SELECT a FROM t WHERE x = 1;''\<rparr>"
  let ?q1 = "\<lparr>timestamp = ''2024-01-01 10:00:01'', sql = ''SELECT a''\<rparr>"
  let ?l = "''2024-01-01 10:00:02 LOG:  statement: SELECT 2''"
  have c3: "current_query ?st3 = Some ?q3" by code_simp
  have c1: "current_query ?st1 = Some ?q1" by code_simp
  have n: "strip ?l \<noteq> []" by code_simp
  have d: "is_digit (hd (strip ?l))" by code_simp
  have cs: "\<forall>c\<in>set (drop 1 three_line_input). strip c \<noteq> [] \<and> \<not> is_digit (hd (strip c))"
    by code_simp
  have j: "join '' '' (sql ?q1 # map strip (drop 1 three_line_input)) = ''SELECT a FROM t WHERE x = 1;''"
    by code_simp
  note a = assembler_accumulating [OF c3 n, where cs = "[]", where ext = extract_query]
  note b = assembler_accumulating [OF c1 n cs, where ext = extract_query]
  have 1: "parse_line extract_query ?st3 ?l
     = (case buffer_query ?st3 ?q3 of
          Inl e \<Rightarrow> Inl e
        | Inr st' \<Rightarrow> Inr (st'\<lparr>current_query := extract_query (strip ?l)\<rparr>))"
    using a d by simp
  have 2: "parse_lines extract_query ?st1 (drop 1 three_line_input)
     = (None, ?st1\<lparr>current_query := Some ?q3\<rparr>)"
    using b [THEN conjunct2, THEN conjunct2] by (simp only: j) simp
  show ?thesis using 1 2 by (rule conjI)
qed

section \<open>Minute keys\<close>

text \<open>
  \<^verbatim>\<open>datetime.strptime(ts_clean, '%Y-%m-%d %H:%M:%S')\<close>. The library turns the format into
  a regular expression, one group of alternatives for each directive and \<^verbatim>\<open>\s+\<close> for
  the space, and takes its first match in backtracking order. A parser here returns the
  matches of its part in that order, each with the value read and the text behind it;
  sequencing parsers keeps the order, so the head of the list is the match of the library.
\<close>

definition digit_val :: "char \<Rightarrow> nat" where
  "digit_val c = length (takeWhile (\<lambda>d. d \<noteq> c) ''0123456789'')"

definition digit_char :: "nat \<Rightarrow> char" where
  "digit_char n = ''0123456789'' ! n"

definition one_of :: "string \<Rightarrow> string \<Rightarrow> (nat \<times> string) list" where
  "one_of cls s =
     (case s of
        a # r \<Rightarrow> if a \<in> set cls then [(digit_val a, r)] else []
      | _ \<Rightarrow> [])"

definition two_of :: "string \<Rightarrow> string \<Rightarrow> string \<Rightarrow> (nat \<times> string) list" where
  "two_of cls1 cls2 s =
     (case s of
        a # b # r \<Rightarrow>
          if a \<in> set cls1 \<and> b \<in> set cls2 then [(10 * digit_val a + digit_val b, r)] else []
      | _ \<Rightarrow> [])"

text \<open>
  \<^verbatim>\<open>%Y\<close> is \<^verbatim>\<open>\d\d\d\d\<close>, \<^verbatim>\<open>%m\<close> is \<^verbatim>\<open>1[0-2]|0[1-9]|[1-9]\<close>, \<^verbatim>\<open>%d\<close> is
  \<^verbatim>\<open>3[0-1]|[1-2]\d|0[1-9]|[1-9]| [1-9]\<close>, \<^verbatim>\<open>%H\<close> is \<^verbatim>\<open>2[0-3]|[0-1]\d|\d\<close>, \<^verbatim>\<open>%M\<close> is
  \<^verbatim>\<open>[0-5]\d|\d\<close> and \<^verbatim>\<open>%S\<close> is \<^verbatim>\<open>6[0-1]|[0-5]\d|\d\<close>.
\<close>

definition p_Y :: "string \<Rightarrow> (nat \<times> string) list" where
  "p_Y s =
     (case s of
        a # b # c # d # r \<Rightarrow>
          if is_digit a \<and> is_digit b \<and> is_digit c \<and> is_digit d
          then [(1000 * digit_val a + 100 * digit_val b + 10 * digit_val c + digit_val d, r)]
          else []
      | _ \<Rightarrow> [])"

definition p_m :: "string \<Rightarrow> (nat \<times> string) list" where
  "p_m s = two_of ''1'' ''012'' s @ two_of ''0'' ''123456789'' s @ one_of ''123456789'' s"

definition p_d :: "string \<Rightarrow> (nat \<times> string) list" where
  "p_d s = two_of ''3'' ''01'' s @ two_of ''12'' ''0123456789'' s @ two_of ''0'' ''123456789'' s
           @ one_of ''123456789'' s
           @ (case s of a # r \<Rightarrow> if a = CHR '' '' then one_of ''123456789'' r else [] | _ \<Rightarrow> [])"

definition p_H :: "string \<Rightarrow> (nat \<times> string) list" where
  "p_H s = two_of ''2'' ''0123'' s @ two_of ''01'' ''0123456789'' s @ one_of ''0123456789'' s"

definition p_M :: "string \<Rightarrow> (nat \<times> string) list" where
  "p_M s = two_of ''012345'' ''0123456789'' s @ one_of ''0123456789'' s"

definition p_S :: "string \<Rightarrow> (nat \<times> string) list" where
  "p_S s = two_of ''6'' ''01'' s @ two_of ''012345'' ''0123456789'' s @ one_of ''0123456789'' s"

text \<open>A literal character behind a directive, and the greedy \<^verbatim>\<open>\s+\<close> behind one.\<close>

definition then_lit :: "(string \<Rightarrow> (nat \<times> string) list) \<Rightarrow> char \<Rightarrow> string \<Rightarrow> (nat \<times> string) list" where
  "then_lit p c s =
     concat (map (\<lambda>(v, r). case r of x # xs \<Rightarrow> if x = c then [(v, xs)] else [] | _ \<Rightarrow> []) (p s))"

definition then_spaces :: "(string \<Rightarrow> (nat \<times> string) list) \<Rightarrow> string \<Rightarrow> (nat \<times> string) list" where
  "then_spaces p s =
     concat (map (\<lambda>(v, r). map (\<lambda>k. (v, drop k r)) (rev [1 ..< Suc (length (takeWhile is_space r))]))
                 (p s))"

definition leap :: "nat \<Rightarrow> bool" where
  "leap y = (y mod 4 = 0 \<and> (y mod 100 \<noteq> 0 \<or> y mod 400 = 0))"

definition days_in_month :: "nat \<Rightarrow> nat \<Rightarrow> nat" where
  "days_in_month y m =
     (if m = 2 then (if leap y then 29 else 28)
      else if m \<in> set [4, 6, 9, 11] then 30 else 31)"

text \<open>
  The fields of the first match. \<^verbatim>\<open>ValueError\<close> (here \<open>None\<close>) is raised without a
  match, when text is left behind the match, and when the fields are no date and time:
  the year 0, a day that the month does not have, a second above 59.
\<close>

definition strptime_matches :: "string \<Rightarrow> ((nat \<times> nat \<times> nat \<times> nat \<times> nat \<times> nat) \<times> string) list" where
  "strptime_matches s =
     concat (map (\<lambda>(Y, r1).
       concat (map (\<lambda>(m, r2).
         concat (map (\<lambda>(d, r3).
           concat (map (\<lambda>(H, r4).
             concat (map (\<lambda>(M, r5).
               map (\<lambda>(S, r). ((Y, m, d, H, M, S), r)) (p_S r5))
             (then_lit p_M (CHR '':'') r4)))
           (then_lit p_H (CHR '':'') r3)))
         (then_spaces p_d r2)))
       (then_lit p_m (CHR ''-'') r1)))
     (then_lit p_Y (CHR ''-'') s))"

definition strptime :: "string \<Rightarrow> (nat \<times> nat \<times> nat \<times> nat \<times> nat \<times> nat) option" where
  "strptime s =
     (case strptime_matches s of
        [] \<Rightarrow> None
      | ((Y, m, d, H, M, S), r) # rest \<Rightarrow>
          if r = [] \<and> 1 \<le> Y \<and> d \<le> days_in_month Y m \<and> S \<le> 59
          then Some (Y, m, d, H, M, S) else None)"

text \<open>
  \<^verbatim>\<open>strftime('%Y-%m-%d %H:%M')\<close> writes the year with four digits and the other fields
  with two, filled with zeros, as the documentation of \<^verbatim>\<open>datetime\<close> has it.
\<close>

fun zfill_nat :: "nat \<Rightarrow> nat \<Rightarrow> string" where
  "zfill_nat 0 n = []"
| "zfill_nat (Suc k) n = zfill_nat k (n div 10) @ [digit_char (n mod 10)]"

definition minute_key :: "string \<Rightarrow> string option" where
  "minute_key ts =
     (case strptime (take 19 ts) of
        None \<Rightarrow> None
      | Some (Y, m, d, H, M, S) \<Rightarrow>
          Some (zfill_nat 4 Y @ ''-'' @ zfill_nat 2 m @ ''-'' @ zfill_nat 2 d @ '' ''
                @ zfill_nat 2 H @ '':'' @ zfill_nat 2 M))"

section \<open>Claims about minute keys\<close>


























section \<open>The minute summary\<close>

text \<open>
  \<^verbatim>\<open>generate_combined_summary\<close> of minparserz differs from the daily summary in the key
  of a line, the minute key of its time stamp, with the line skipped when there is none,
  and in the name of the summary file, which holds the base name of the log file.
\<close>

definition count_line_min :: "string \<Rightarrow> stats \<times> sql_cache \<Rightarrow> stats \<times> sql_cache" where
  "count_line_min line sc =
     (case split_bar line of
        None \<Rightarrow> sc
      | Some (ts, body) \<Rightarrow>
          (case normalize_sql (snd sc) (strip body) of
             (normalized_sql, hit, cache) \<Rightarrow>
               (case minute_key ts of
                  None \<Rightarrow> (fst sc, cache)
                | Some key \<Rightarrow> (bump key normalized_sql (fst sc), cache))))"

definition collect_stats_min :: "pstate \<Rightarrow> stats \<times> sql_cache" where
  "collect_stats_min st = fold count_line_min (lines_read st) ([], sql_cache st)"

definition generate_combined_summary :: "string \<Rightarrow> pstate \<Rightarrow> pstate" where
  "generate_combined_summary summary_filename st =
     (case collect_stats_min st of
        (stats, cache) \<Rightarrow>
          st\<lparr>sql_cache := cache,
             disk := AList.update summary_filename (summary_lines stats) (disk st)\<rparr>)"

section \<open>Claims about the summary\<close>

text \<open>
  The entries of a summary in the order of its lines: key, normalized statement, count.
\<close>

definition summary_entries :: "stats \<Rightarrow> (string \<times> string \<times> nat) list" where
  "summary_entries stats =
     concat (map (\<lambda>key. map (\<lambda>(normalized, count). (key, normalized, count))
                          (sort_key fst (lookup_list stats key)))
                 (sort (map fst stats)))"

definition entry_le :: "string \<times> string \<times> nat \<Rightarrow> string \<times> string \<times> nat \<Rightarrow> bool" where
  "entry_le a b = (fst a < fst b \<or> (fst a = fst b \<and> fst (snd a) \<le> fst (snd b)))"

definition stats_ok :: "stats \<Rightarrow> bool" where
  "stats_ok stats = (distinct (map fst stats) \<and> (\<forall>inner\<in>snd ` set stats. distinct (map fst inner)))"

lemma set_update_subset: "set (AList.update k v al) \<subseteq> insert (k, v) (set al)"
  by (induction al) auto

lemma lookup_list_distinct:
  "stats_ok stats \<Longrightarrow> distinct (map fst (lookup_list stats key))"
  unfolding lookup_list_def stats_ok_def
  by (cases "map_of stats key") (auto dest!: map_of_SomeD)

lemma bump_ok: "stats_ok stats \<Longrightarrow> stats_ok (bump key n stats)"
proof -
  assume ok: "stats_ok stats"
  let ?inner = "AList.update n (count_of (lookup_list stats key) n + 1) (lookup_list stats key)"
  have d: "distinct (map fst ?inner)"
    using lookup_list_distinct [OF ok] by (rule distinct_update)
  have sub: "snd ` set (AList.update key ?inner stats) \<subseteq> insert ?inner (snd ` set stats)"
    using set_update_subset [of key ?inner stats] by force
  have "distinct (map fst i)" if "i \<in> snd ` set (AList.update key ?inner stats)" for i
  proof -
    from that sub have "i = ?inner \<or> i \<in> snd ` set stats" by blast
    then show ?thesis using d ok unfolding stats_ok_def by blast
  qed
  moreover have "distinct (map fst (AList.update key ?inner stats))"
    using ok unfolding stats_ok_def by (simp add: distinct_update)
  ultimately show ?thesis unfolding stats_ok_def bump_def Let_def by blast
qed

lemma count_line_ok: "stats_ok (fst sc) \<Longrightarrow> stats_ok (fst (count_line line sc))"
  unfolding count_line_def by (auto split: option.splits prod.splits list.splits simp: bump_ok)

lemma count_line_min_ok: "stats_ok (fst sc) \<Longrightarrow> stats_ok (fst (count_line_min line sc))"
  unfolding count_line_min_def by (auto split: option.splits prod.splits simp: bump_ok)

lemma fold_ok:
  "(\<And>line sc. stats_ok (fst sc) \<Longrightarrow> stats_ok (fst (f line sc))) \<Longrightarrow>
   stats_ok (fst sc) \<Longrightarrow> stats_ok (fst (fold f ls sc))"
  by (induction ls arbitrary: sc) auto

lemma collect_stats_ok: "stats_ok (fst (collect_stats st))"
  unfolding collect_stats_def by (rule fold_ok [OF count_line_ok]) (simp_all add: stats_ok_def)

lemma collect_stats_min_ok: "stats_ok (fst (collect_stats_min st))"
  unfolding collect_stats_min_def by (rule fold_ok [OF count_line_min_ok]) (simp_all add: stats_ok_def)

lemma entries_sorted_groups:
  "sorted_wrt (<) ks \<Longrightarrow> (\<And>k. sorted (map fst (g k))) \<Longrightarrow>
   sorted_wrt entry_le (concat (map (\<lambda>key. map (\<lambda>(n, c). (key, n, c)) (g key)) ks))"
proof (induction ks)
  case Nil
  then show ?case by simp
next
  case (Cons k ks)
  have 1: "sorted_wrt entry_le (map (\<lambda>(n, c). (k, n, c)) (g k))"
    using Cons.prems(2) [of k]
    by (simp add: sorted_wrt_map sorted_map entry_le_def case_prod_beta)
  have 2: "sorted_wrt entry_le (concat (map (\<lambda>key. map (\<lambda>(n, c). (key, n, c)) (g key)) ks))"
    using Cons by simp
  have 3: "entry_le x y" if "x \<in> set (map (\<lambda>(n, c). (k, n, c)) (g k))"
    "y \<in> set (concat (map (\<lambda>key. map (\<lambda>(n, c). (key, n, c)) (g key)) ks))" for x y
  proof -
    from that(1) have "fst x = k" by auto
    moreover from that(2) obtain k' where "k' \<in> set ks" "fst y = k'" by auto
    moreover have "k < k'" if "k' \<in> set ks" for k' using Cons.prems(1) that by simp
    ultimately show ?thesis by (simp add: entry_le_def)
  qed
  show ?case using 1 2 3 by (simp add: sorted_wrt_append)
qed

lemma summary_entries_sorted: "stats_ok stats \<Longrightarrow> sorted_wrt entry_le (summary_entries stats)"
  unfolding summary_entries_def
  by (rule entries_sorted_groups) (simp_all add: stats_ok_def strict_sorted_iff)

lemma summary_lines_entries:
  "summary_lines stats
   = map (\<lambda>(key, n, c). key @ '' | '' @ n @ '' | '' @ word_executed @ '' '' @ show_nat c @ '' ''
                           @ word_times @ [nl]) (summary_entries stats)"
  unfolding summary_lines_def summary_entries_def summary_line_def
  by (simp add: map_concat comp_def split_def del: show_nat.simps)

lemma lookup_list_update: "lookup_list (AList.update k v al) k = v"
  by (simp add: lookup_list_def update_conv')

text \<open>
  C3 (as amended), for the daily and the minute summary. The lines written to the
  summary file are, entry by entry, the key, the normalized statement and the count in
  the form \<^verbatim>\<open><key> | <statement> | <word> <count> <word>\<close> with a newline, where the two
  words are the ones of the format string of the source; and the entries are in the
  order of their keys, entries of one key in the order of their statements.
\<close>

theorem summary_format_sorted:
  "lookup_list (disk (generate_daily_summary st)) ''daily_summary.log''
     = map (\<lambda>(key, n, c). key @ '' | '' @ n @ '' | '' @ word_executed @ '' '' @ show_nat c @ '' ''
                           @ word_times @ [nl])
           (summary_entries (fst (collect_stats st)))
   \<and> sorted_wrt entry_le (summary_entries (fst (collect_stats st)))
   \<and> lookup_list (disk (generate_combined_summary name st)) name
     = map (\<lambda>(key, n, c). key @ '' | '' @ n @ '' | '' @ word_executed @ '' '' @ show_nat c @ '' ''
                           @ word_times @ [nl])
           (summary_entries (fst (collect_stats_min st)))
   \<and> sorted_wrt entry_le (summary_entries (fst (collect_stats_min st)))"
proof (intro conjI)
  show "lookup_list (disk (generate_daily_summary st)) ''daily_summary.log''
     = map (\<lambda>(key, n, c). key @ '' | '' @ n @ '' | '' @ word_executed @ '' '' @ show_nat c @ '' ''
                           @ word_times @ [nl])
           (summary_entries (fst (collect_stats st)))"
    unfolding generate_daily_summary_def
    by (cases "collect_stats st") (simp add: lookup_list_update summary_lines_entries)
  show "lookup_list (disk (generate_combined_summary name st)) name
     = map (\<lambda>(key, n, c). key @ '' | '' @ n @ '' | '' @ word_executed @ '' '' @ show_nat c @ '' ''
                           @ word_times @ [nl])
           (summary_entries (fst (collect_stats_min st)))"
    unfolding generate_combined_summary_def
    by (cases "collect_stats_min st") (simp add: lookup_list_update summary_lines_entries)
  show "sorted_wrt entry_le (summary_entries (fst (collect_stats st)))"
    using collect_stats_ok by (rule summary_entries_sorted)
  show "sorted_wrt entry_le (summary_entries (fst (collect_stats_min st)))"
    using collect_stats_min_ok by (rule summary_entries_sorted)
qed

text \<open>
  C3 as stated fails on its own scenario: the daily summary of the two statements is one
  line with the count 2 between the two words, not the line that ends with the bare
  count.
\<close>

theorem summary_scenario_counterexample:
  "lookup_list (disk (snd (parse [] scenario EndOfFile))) ''daily_summary.log''
     = [''2024-01-01 | SELECT * FROM users WHERE id = $num | '' @ word_executed @ '' 2 ''
          @ word_times @ [nl]]
   \<and> lookup_list (disk (snd (parse [] scenario EndOfFile))) ''daily_summary.log''
     \<noteq> [''2024-01-01 | SELECT * FROM users WHERE id = $num | 2'' @ [nl]]"
  by code_simp

section \<open>The chunked parser\<close>

text \<open>
  parser.py. \<^verbatim>\<open>timestamp_regex.search(line)\<close> is the first place in the line with the
  shape \<^verbatim>\<open>\d{4}-\d{2}-\d{2} \d{2}:\d{2}\<close>, and its group the text there;
  \<^verbatim>\<open>line.find(marker)\<close> is the first place where the marker stands.
\<close>

fun ts_search :: "string \<Rightarrow> string option" where
  "ts_search [] = None"
| "ts_search (c # cs) =
     (if shape_prefix ''dddd-dd-dd dd:dd'' (c # cs) then Some (take 16 (c # cs)) else ts_search cs)"

fun find_sub :: "string \<Rightarrow> string \<Rightarrow> nat option" where
  "find_sub pat [] = (if pat = [] then Some 0 else None)"
| "find_sub pat (c # cs) =
     (if take (length pat) (c # cs) = pat then Some 0 else map_option Suc (find_sub pat cs))"

definition marker :: string where
  "marker = ''LOG:  statement: ''"

text \<open>
  The counter is a \<^verbatim>\<open>defaultdict(int)\<close> keyed by the pair of a time (a string or
  \<^verbatim>\<open>None\<close>) and a normalized statement. \<^verbatim>\<open>current_query\<close> is a list that the functions
  change in place, so its new value is returned; \<^verbatim>\<open>current_time\<close> is a string or
  \<^verbatim>\<open>None\<close> passed by value.
\<close>

type_synonym counter = "string option \<times> string \<Rightarrow> nat"

definition finalize_query :: "counter \<Rightarrow> string list \<Rightarrow> string option \<Rightarrow> counter \<times> string list" where
  "finalize_query counter cq current_time =
     (if cq \<noteq> [] then
        (let query_str = join '' '' cq;
             norm_query = normalize_query query_str
         in (counter((current_time, norm_query) := counter (current_time, norm_query) + 1), []))
      else (counter, cq))"

text \<open>
  \<^verbatim>\<open>process_line\<close> returns the counter, the list and the value of its own variable
  \<^verbatim>\<open>current_time\<close> at its end. The assignments to that variable bind the parameter of
  the function only.
\<close>

definition process_line :: "string \<Rightarrow> counter \<Rightarrow> string list \<Rightarrow> string option \<Rightarrow> counter \<times> string list \<times> string option" where
  "process_line line counter cq current_time =
     (let time_match = ts_search line in
      case (find_sub marker line, time_match) of
        (Some i, Some g) \<Rightarrow>
          (case (if cq \<noteq> [] then finalize_query counter cq current_time else (counter, cq)) of
             (counter, cq) \<Rightarrow>
               (let current_time = Some g;
                    start = i + length marker
                in (counter, cq @ [strip (drop start line)], current_time)))
      | (_, Some g) \<Rightarrow>
          (if cq \<noteq> [] then
             (case finalize_query counter cq current_time of
                (counter, cq) \<Rightarrow> (counter, cq, None))
           else (counter, cq, current_time))
      | (_, None) \<Rightarrow>
          (if cq \<noteq> [] then (counter, cq @ [strip line], current_time)
           else (counter, cq, current_time)))"

text \<open>
  The calls of \<^verbatim>\<open>parse_log_in_chunks\<close> pass its variable \<^verbatim>\<open>current_time\<close>, which is
  \<^verbatim>\<open>None\<close> from its initialization on: nothing in that function assigns to it.
\<close>

fun process_all :: "string list \<Rightarrow> counter \<times> string list \<Rightarrow> counter \<times> string list" where
  "process_all [] s = s"
| "process_all (line # ls) s =
     (case process_line line (fst s) (snd s) None of
        (counter, cq, t) \<Rightarrow> process_all ls (counter, cq))"

text \<open>\<^verbatim>\<open>buffer.split('\n')\<close>: the pieces between the newlines, at least one.\<close>

fun split_nl :: "string \<Rightarrow> string list" where
  "split_nl [] = [[]]"
| "split_nl (c # cs) =
     (if c = nl then [] # split_nl cs
      else (case split_nl cs of [] \<Rightarrow> [[c]] | p # ps \<Rightarrow> (c # p) # ps))"

text \<open>
  The reading loop on the text that is still unread: \<^verbatim>\<open>file.read(chunk_size)\<close> takes
  the next \<^verbatim>\<open>chunk_size\<close> characters, fewer at the end of the file, and the loop stops on
  the empty chunk.
\<close>

function read_chunks :: "nat \<Rightarrow> string \<Rightarrow> string \<Rightarrow> counter \<times> string list \<Rightarrow> (counter \<times> string list) \<times> string" where
  "read_chunks chunk_size unread buffer s =
     (if take chunk_size unread = [] then (s, buffer)
      else read_chunks chunk_size (drop chunk_size unread)
             (last (split_nl (buffer @ take chunk_size unread)))
             (process_all (butlast (split_nl (buffer @ take chunk_size unread))) s))"
  by pat_completeness auto
termination
  by (relation "measure (\<lambda>(chunk_size, unread, buffer, s). length unread)") auto

declare read_chunks.simps [simp del]

definition parse_log_in_chunks :: "string \<Rightarrow> nat \<Rightarrow> counter" where
  "parse_log_in_chunks text chunk_size =
     (case read_chunks chunk_size text [] (\<lambda>k. 0, []) of
        (s, buffer) \<Rightarrow>
          (let s = (if buffer \<noteq> [] then
                      (case process_line buffer (fst s) (snd s) None of
                         (counter, cq, t) \<Rightarrow> (counter, cq))
                    else s);
               s = (if snd s \<noteq> [] then finalize_query (fst s) (snd s) None else s)
           in fst s))"

text \<open>
  Reading the whole input line by line, as the reference for the chunked reading: the
  lines are the pieces between the newlines, without an empty piece behind the last
  newline; each is processed, and the record in progress is finalized at the end.
\<close>

definition complete_lines :: "string \<Rightarrow> string list" where
  "complete_lines text =
     (if last (split_nl text) = [] then butlast (split_nl text) else split_nl text)"

definition parse_whole :: "string \<Rightarrow> counter" where
  "parse_whole text =
     (let s = process_all (complete_lines text) (\<lambda>k. 0, []);
          s = (if snd s \<noteq> [] then finalize_query (fst s) (snd s) None else s)
      in fst s)"

section \<open>Claims about the chunked parser\<close>

lemma split_nl_nonempty: "split_nl s \<noteq> []"
  by (induction s) (auto split: list.splits)

lemma split_nl_append:
  "split_nl (a @ b) = butlast (split_nl a) @ split_nl (last (split_nl a) @ b)"
proof (induction a)
  case Nil
  then show ?case by simp
next
  case (Cons c a)
  obtain p ps where sa: "split_nl a = p # ps"
    using split_nl_nonempty [of a] by (cases "split_nl a") auto
  show ?case
  proof (cases "c = nl")
    case True
    then show ?thesis using Cons sa by simp
  next
    case False
    show ?thesis
    proof (cases ps)
      case Nil
      obtain q qs where sq: "split_nl (p @ b) = q # qs"
        using split_nl_nonempty [of "p @ b"] by (cases "split_nl (p @ b)") auto
      show ?thesis using Cons sa Nil False sq by simp
    next
      case (Cons x xs)
      then show ?thesis using Cons.IH sa False by simp
    qed
  qed
qed

lemma split_nl_last_no_nl: "nl \<notin> set (last (split_nl s))"
proof (induction s)
  case Nil
  then show ?case by simp
next
  case (Cons c s)
  obtain p ps where sa: "split_nl s = p # ps"
    using split_nl_nonempty [of s] by (cases "split_nl s") auto
  show ?case using Cons sa by (cases ps) auto
qed

lemma split_nl_no_nl: "nl \<notin> set s \<Longrightarrow> split_nl s = [s]"
  by (induction s) auto

lemma process_all_append: "process_all (xs @ ys) s = process_all ys (process_all xs s)"
  by (induction xs arbitrary: s) (auto split: prod.splits)

lemma read_chunks_lines:
  "1 \<le> n \<Longrightarrow> nl \<notin> set buffer \<Longrightarrow>
   read_chunks n unread buffer s
   = (process_all (butlast (split_nl (buffer @ unread))) s, last (split_nl (buffer @ unread)))"
proof (induction n unread buffer s rule: read_chunks.induct)
  case (1 n unread buffer s)
  show ?case
  proof (cases "take n unread = []")
    case True
    with "1.prems"(1) have "unread = []" by (cases unread) auto
    then show ?thesis
      using "1.prems"(2) by (simp add: read_chunks.simps [of n "[]"] split_nl_no_nl)
  next
    case False
    let ?lines = "split_nl (buffer @ take n unread)"
    have ih: "read_chunks n (drop n unread) (last ?lines) (process_all (butlast ?lines) s)
        = (process_all (butlast (split_nl (last ?lines @ drop n unread))) (process_all (butlast ?lines) s),
           last (split_nl (last ?lines @ drop n unread)))"
      using False "1.prems"(1) split_nl_last_no_nl by (intro "1.IH") auto
    have "buffer @ unread = (buffer @ take n unread) @ drop n unread" by simp
    then have sp: "split_nl (buffer @ unread) = butlast ?lines @ split_nl (last ?lines @ drop n unread)"
      by (simp only: split_nl_append [symmetric])
    have ne: "split_nl (last ?lines @ drop n unread) \<noteq> []" by (rule split_nl_nonempty)
    have b: "butlast (split_nl (buffer @ unread))
        = butlast ?lines @ butlast (split_nl (last ?lines @ drop n unread))"
      unfolding sp using ne by (simp add: butlast_append)
    have l: "last (split_nl (buffer @ unread)) = last (split_nl (last ?lines @ drop n unread))"
      unfolding sp using ne by simp
    show ?thesis
      unfolding b l process_all_append
      using False ih by (simp add: read_chunks.simps [of n unread buffer s])
  qed
qed

text \<open>
  C6. For a chunk size of at least one character, the reading loop ends with every piece
  of the input before its last newline processed, in order, and the piece behind the last
  newline in the buffer, which holds no newline; the lines of the whole input are these
  pieces and the buffer when it is not empty; and the chunked parser returns the counter
  of the whole-input reading.
\<close>

theorem chunked_equals_whole:
  assumes "1 \<le> chunk_size"
  shows "read_chunks chunk_size inp [] s
           = (process_all (butlast (split_nl inp)) s, last (split_nl inp))
       \<and> nl \<notin> set (last (split_nl inp))
       \<and> complete_lines inp
           = butlast (split_nl inp) @ (if last (split_nl inp) \<noteq> [] then [last (split_nl inp)] else [])
       \<and> parse_log_in_chunks inp chunk_size = parse_whole inp"
proof -
  have r: "read_chunks chunk_size inp [] s
           = (process_all (butlast (split_nl inp)) s, last (split_nl inp))" for s
    using read_chunks_lines [OF assms, of "[]" inp s] by simp
  have c: "complete_lines inp
           = butlast (split_nl inp) @ (if last (split_nl inp) \<noteq> [] then [last (split_nl inp)] else [])"
    unfolding complete_lines_def using split_nl_nonempty [of inp] by simp
  have p: "parse_log_in_chunks inp chunk_size = parse_whole inp"
    unfolding parse_log_in_chunks_def parse_whole_def r c
    by (simp add: process_all_append Let_def split: prod.splits)
  show ?thesis using r c p split_nl_last_no_nl by blast
qed

text \<open>A log of two statements, the first over two lines, with no newline at its end.\<close>

definition sample_log :: string where
  "sample_log =
     ''2024-01-01 10:00:01 LOG:  statement: SELECT 1'' @ [nl] @ ''  FROM t'' @ [nl]
       @ ''2024-01-01 10:01:02 LOG:  statement: SELECT 2''"

theorem chunked_equals_whole_witness:
  "parse_log_in_chunks sample_log 7 = parse_whole sample_log
   \<and> parse_log_in_chunks sample_log 7 (None, ''SELECT ? FROM t'') = 1
   \<and> complete_lines sample_log
       = [''2024-01-01 10:00:01 LOG:  statement: SELECT 1'', ''  FROM t'',
          ''2024-01-01 10:01:02 LOG:  statement: SELECT 2'']"
proof -
  have n: "(1::nat) \<le> 7" by simp
  note t = chunked_equals_whole [OF n, of sample_log]
  have 1: "parse_log_in_chunks sample_log 7 = parse_whole sample_log"
    using t by blast
  have 2: "parse_whole sample_log (None, ''SELECT ? FROM t'') = 1" by code_simp
  have 3: "complete_lines sample_log
       = [''2024-01-01 10:00:01 LOG:  statement: SELECT 1'', ''  FROM t'',
          ''2024-01-01 10:01:02 LOG:  statement: SELECT 2'']" by code_simp
  have 4: "parse_log_in_chunks sample_log 7 (None, ''SELECT ? FROM t'') = 1"
    unfolding 1 by (rule 2)
  show ?thesis using 1 4 3 by (intro conjI)
qed

text \<open>
  C4 at the failing input, a log of one statement line. \<^verbatim>\<open>process_line\<close> finds the time
  of the line and binds it to its own \<^verbatim>\<open>current_time\<close>; the variable of
  \<^verbatim>\<open>parse_log_in_chunks\<close>, which is the one passed to \<^verbatim>\<open>finalize_query\<close>, is still
  \<^verbatim>\<open>None\<close>. The record is counted under the key without a time, and nothing is counted
  under the time of its line.
\<close>

theorem chunked_key_has_no_time:
  "snd (snd (process_line ''2024-01-01 10:00:01 LOG:  statement: SELECT 1'' (\<lambda>k. 0) [] None))
     = Some ''2024-01-01 10:00''
   \<and> parse_log_in_chunks (''2024-01-01 10:00:01 LOG:  statement: SELECT 1'' @ [nl]) 1024
        (None, ''SELECT ?'') = 1
   \<and> parse_log_in_chunks (''2024-01-01 10:00:01 LOG:  statement: SELECT 1'' @ [nl]) 1024
        (Some ''2024-01-01 10:00'', ''SELECT ?'') = 0"
  by code_simp

end
